theory Spec2Isabelle
  imports Main "HOL-Library.AList"
begin

section \<open>The chat session of the Workers AI durable object\<close>

text \<open>
  A shallow embedding of the class \<open>WorkersAIDurableObject\<close>: the two tables of the
  schema, the messages of the WebSocket protocol, the stream of completion chunks the
  provider delivers, and the handlers \<open>webSocketMessage\<close>, \<open>handleChat\<close> and
  \<open>handleRegenerate\<close>. Every effect of a handler (a frame sent on the socket, a write
  to a table, a call of the provider) is appended to a trace, in program order.
\<close>

subsection \<open>Tool-call fragments and their accumulation\<close>

text \<open>
  A fragment is a \<open>ChatCompletionChunk.Choice.Delta.ToolCall\<close>: every field except the
  index is optional, \<open>None\<close> standing for \<open>undefined\<close>. The test \<open>if (x)\<close> on an
  optional string holds when the string is present and not empty.
\<close>

record function_delta =
  fn_name :: "string option"
  fn_arguments :: "string option"

record tool_call =
  tc_index :: nat
  tc_id :: "string option"
  tc_type :: "string option"
  tc_function :: "function_delta option"

fun truthy :: "string option \<Rightarrow> bool" where
  "truthy None = False"
| "truthy (Some s) = (s \<noteq> [])"

text \<open>\<open>x || ""\<close>\<close>

fun or_empty :: "string option \<Rightarrow> string" where
  "or_empty None = []"
| "or_empty (Some s) = s"

text \<open>\<open>toolCall.function?.name\<close> and \<open>toolCall.function?.arguments\<close>\<close>

definition function_name :: "tool_call \<Rightarrow> string option" where
  "function_name toolCall =
     (case tc_function toolCall of None \<Rightarrow> None | Some f \<Rightarrow> fn_name f)"

definition function_arguments :: "tool_call \<Rightarrow> string option" where
  "function_arguments toolCall =
     (case tc_function toolCall of None \<Rightarrow> None | Some f \<Rightarrow> fn_arguments f)"

text \<open>\<open>existingToolCall.function || {}\<close>\<close>

definition function_or_new :: "tool_call \<Rightarrow> function_delta" where
  "function_or_new existingToolCall =
     (case tc_function existingToolCall of
        None \<Rightarrow> \<lparr>fn_name = None, fn_arguments = None\<rparr>
      | Some f \<Rightarrow> f)"

text \<open>The branch taken when the map already holds an entry at the fragment's index.\<close>

definition update_existing :: "tool_call \<Rightarrow> tool_call \<Rightarrow> tool_call" where
  "update_existing existingToolCall toolCall =
     (let e1 = (if truthy (function_name toolCall)
                then existingToolCall\<lparr>tc_function :=
                       Some ((function_or_new existingToolCall)
                               \<lparr>fn_name := function_name toolCall\<rparr>)\<rparr>
                else existingToolCall);
          e2 = (if truthy (function_arguments toolCall)
                then e1\<lparr>tc_function :=
                       Some ((function_or_new e1)
                               \<lparr>fn_arguments :=
                                  Some (or_empty (fn_arguments (function_or_new e1))
                                        @ or_empty (function_arguments toolCall))\<rparr>)\<rparr>
                else e1);
          e3 = (if truthy (tc_id toolCall) then e2\<lparr>tc_id := tc_id toolCall\<rparr> else e2);
          e4 = (if truthy (tc_type toolCall) then e3\<lparr>tc_type := tc_type toolCall\<rparr> else e3)
      in e4)"

text \<open>The branch taken when the index is new: the object stored by \<open>toolCallMap.set\<close>.\<close>

definition new_entry :: "tool_call \<Rightarrow> tool_call" where
  "new_entry toolCall =
     \<lparr>tc_index = tc_index toolCall,
      tc_id = tc_id toolCall,
      tc_type = tc_type toolCall,
      tc_function = Some \<lparr>fn_name = function_name toolCall,
                          fn_arguments = Some (or_empty (function_arguments toolCall))\<rparr>\<rparr>"

text \<open>
  The JavaScript \<open>Map\<close> keeps its keys in insertion order, and
  \<open>Array.from(toolCallMap.values())[0]\<close> reads the entry inserted first: the map is an
  association list, a new key is appended, an existing entry is changed in place.
\<close>

type_synonym tool_call_map = "(nat \<times> tool_call) list"

definition merge_tool_call :: "tool_call_map \<Rightarrow> tool_call \<Rightarrow> tool_call_map" where
  "merge_tool_call toolCallMap toolCall =
     (case map_of toolCallMap (tc_index toolCall) of
        Some existingToolCall \<Rightarrow>
          AList.update (tc_index toolCall) (update_existing existingToolCall toolCall) toolCallMap
      | None \<Rightarrow> toolCallMap @ [(tc_index toolCall, new_entry toolCall)])"

text \<open>All the fragments of a stream, in arrival order, merged into an empty map.\<close>

definition accumulate :: "tool_call list \<Rightarrow> tool_call_map" where
  "accumulate fragments = foldl merge_tool_call [] fragments"

text \<open>
  What the specification says of a finalized entry, written from its words: the fragments
  addressed to an index give the concatenation of their argument texts, and for each of
  identifier, kind and name the last non-empty value (the first fragment's value, which is
  then empty or absent, when none is non-empty).
\<close>

definition addressed_to :: "nat \<Rightarrow> tool_call list \<Rightarrow> tool_call list" where
  "addressed_to i fragments = filter (\<lambda>f. tc_index f = i) fragments"

definition last_non_empty :: "string option list \<Rightarrow> string option" where
  "last_non_empty vs =
     (case rev (filter truthy vs) of
        v # _ \<Rightarrow> v
      | [] \<Rightarrow> (case vs of [] \<Rightarrow> None | v # _ \<Rightarrow> v))"

definition spec_entry :: "nat \<Rightarrow> tool_call list \<Rightarrow> tool_call" where
  "spec_entry i fs =
     \<lparr>tc_index = i,
      tc_id = last_non_empty (map tc_id fs),
      tc_type = last_non_empty (map tc_type fs),
      tc_function = Some
        \<lparr>fn_name = last_non_empty (map function_name fs),
         fn_arguments = Some (concat (map (\<lambda>f. or_empty (function_arguments f)) fs))\<rparr>\<rparr>"

subsection \<open>The tables of the schema\<close>

text \<open>
  The tables \<open>conversations\<close> and \<open>messages\<close> of \<open>drizzle/schema.ts\<close>. A timestamp is
  the instant \<open>new Date()\<close> reads, as a number (\<open>toISOString\<close> keeps the order of
  instants); the columns \<open>created_at\<close> and \<open>updated_at\<close> are filled by their defaults on
  every insert the class makes.
\<close>

datatype role = User | Assistant

record conversation =
  c_id :: string
  c_user_id :: string
  c_title :: "string option"
  c_pinned :: bool
  c_created_at :: nat
  c_updated_at :: nat

record message =
  m_id :: string
  m_user_id :: string
  m_conversation_id :: string
  m_role :: role
  m_content :: string
  m_created_at :: nat
  m_updated_at :: nat

subsection \<open>The protocol of the socket\<close>


text \<open>
  The frames the handlers send: \<open>chat.stream.response\<close> (eventId, conversationId,
  content), \<open>chat.stream.done\<close> (eventId, conversationId, function_call: the name and the
  arguments, or null), \<open>conversation.title.update\<close> (eventId, conversationId, title) and
  the frame of type \<open>error\<close> (eventId, message).
\<close>

datatype server_message =
    StreamResponse string string string
  | StreamDone string string "(string \<times> string) option"
  | TitleUpdate string string string
  | ErrorFrame string string

subsection \<open>The provider\<close>

text \<open>
  A chunk of the completion stream is the list of its choices, each choice reduced to its
  delta. The stream is a finite list of chunks and the way the iteration ends: the sequence
  is exhausted, the iterator throws an error named \<open>AbortError\<close>, or it throws any other
  error. The call \<open>chat.completions.create\<close> itself may throw before a stream exists.
\<close>

record delta =
  d_content :: "string option"
  d_tool_calls :: "tool_call list option"

type_synonym chunk = "delta list"

datatype stream_end = EndOfStream | AbortError | OtherError

datatype completion = CreateThrows | Stream "chunk list" stream_end

text \<open>
  The second, non-streaming call asks for a title: it throws, or returns the choices, each
  reduced to the \<open>content\<close> of its message (a string or null).
\<close>

datatype title_completion = TitleCreateThrows | TitleChoices "string option list"

text \<open>
  What the collaborators do during one run of a handler: the outcome of the streaming
  call, the outcome of the title call, \<open>ConversationTitleExtraction.parse(JSON.parse(s))\<close>
  as a function of \<open>s\<close> giving the \<open>title\<close> field (\<open>None\<close> when either of the two throws),
  and the values \<open>crypto.randomUUID()\<close> and \<open>new Date()\<close> produce at their n-th use.
\<close>

record env =
  chat_completions_create :: completion
  title_completions_create :: title_completion
  parse_title :: "string \<Rightarrow> string option"
  randomUUID :: "nat \<Rightarrow> string"
  now :: "nat \<Rightarrow> nat"

subsection \<open>The state of the object and its effects\<close>

text \<open>
  An effect is a frame sent with \<open>ws.send\<close>, a write to a table, or a call of the provider.
  The streaming call records its model, its messages, the controller whose signal it
  carries and whether the header \<open>cf-aig-skip-cache\<close> is set; the title call records the
  conversation it is given after the system prompt.
\<close>

datatype effect =
    WsSend server_message
  | InsertMessage message
  | UpdateMessageContent string string
  | UpdateConversationUpdatedAt string nat
  | UpdateConversationTitle string string
  | ChatCompletionsCreate string "(role \<times> string) list" nat bool
  | TitleCompletionsCreate "(role \<times> string) list"

text \<open>
  The fields \<open>db\<close> (its two tables, rows in insertion order) and \<open>abortController\<close> of the
  class. Every \<open>AbortController\<close> constructed so far has a position in \<open>controllers\<close>, which
  holds the \<open>aborted\<close> flag of its signal; \<open>abortController\<close> is the position of the one the
  field refers to. \<open>ticks\<close> counts the identifiers and instants drawn so far. The socket is
  taken to stay open while a handler runs, so \<open>ws.send\<close> does not throw, and the storage
  calls are taken not to throw either.
\<close>

record session =
  conversations :: "conversation list"
  messages :: "message list"
  controllers :: "bool list"
  abortController :: nat
  trace :: "effect list"
  ticks :: nat

text \<open>The constructor, on a storage that holds the given rows.\<close>

definition constructor :: "conversation list \<Rightarrow> message list \<Rightarrow> session" where
  "constructor cs ms =
     \<lparr>conversations = cs, messages = ms, controllers = [False], abortController = 0,
      trace = [], ticks = 0\<rparr>"

text \<open>\<open>this.abortController = new AbortController()\<close> and \<open>this.abortController.abort()\<close>\<close>

definition new_AbortController :: "session \<Rightarrow> session" where
  "new_AbortController s =
     s\<lparr>controllers := controllers s @ [False], abortController := length (controllers s)\<rparr>"


definition perform :: "effect \<Rightarrow> session \<Rightarrow> session" where
  "perform e s = s\<lparr>trace := trace s @ [e]\<rparr>"

definition ws_send :: "server_message \<Rightarrow> session \<Rightarrow> session" where
  "ws_send m s = perform (WsSend m) s"

text \<open>\<open>db.query.conversations.findFirst\<close> with \<open>where id = conversationId\<close>\<close>

definition find_conversation :: "string \<Rightarrow> session \<Rightarrow> conversation option" where
  "find_conversation conversationId s = find (\<lambda>c. c_id c = conversationId) (conversations s)"

text \<open>
  \<open>db.query.messages.findMany\<close> with \<open>where conversation_id = conversationId\<close> and
  \<open>orderBy asc(created_at)\<close>; rows with equal instants stay in insertion order.
\<close>

definition find_messages :: "string \<Rightarrow> session \<Rightarrow> message list" where
  "find_messages conversationId s =
     sort_key m_created_at (filter (\<lambda>m. m_conversation_id m = conversationId) (messages s))"

text \<open>\<open>db.insert(schema.messages).values({user_id: "1", conversation_id, role, content})\<close>\<close>

definition new_message :: "env \<Rightarrow> string \<Rightarrow> role \<Rightarrow> string \<Rightarrow> session \<Rightarrow> message" where
  "new_message ev conversationId r content s =
     \<lparr>m_id = randomUUID ev (ticks s), m_user_id = ''1'', m_conversation_id = conversationId,
      m_role = r, m_content = content,
      m_created_at = now ev (ticks s), m_updated_at = now ev (ticks s)\<rparr>"

definition insert_message :: "env \<Rightarrow> string \<Rightarrow> role \<Rightarrow> string \<Rightarrow> session \<Rightarrow> session" where
  "insert_message ev conversationId r content s =
     (let m = new_message ev conversationId r content s
      in perform (InsertMessage m) (s\<lparr>messages := messages s @ [m], ticks := Suc (ticks s)\<rparr>))"

text \<open>\<open>db.update(schema.messages).set({content}).where(eq(schema.messages.id, id))\<close>\<close>

definition update_message_content :: "string \<Rightarrow> string \<Rightarrow> session \<Rightarrow> session" where
  "update_message_content ident content s =
     perform (UpdateMessageContent ident content)
       (s\<lparr>messages := map (\<lambda>m. if m_id m = ident then m\<lparr>m_content := content\<rparr> else m)
                          (messages s)\<rparr>)"

text \<open>\<open>db.update(schema.conversations).set({updated_at: new Date().toISOString()})\<close>\<close>

definition touch_conversation :: "env \<Rightarrow> string \<Rightarrow> session \<Rightarrow> session" where
  "touch_conversation ev conversationId s =
     (let t = now ev (ticks s)
      in perform (UpdateConversationUpdatedAt conversationId t)
           (s\<lparr>conversations :=
                 map (\<lambda>c. if c_id c = conversationId then c\<lparr>c_updated_at := t\<rparr> else c)
                     (conversations s),
               ticks := Suc (ticks s)\<rparr>))"

text \<open>\<open>db.update(schema.conversations).set({title})\<close>\<close>

definition update_title :: "string \<Rightarrow> string \<Rightarrow> session \<Rightarrow> session" where
  "update_title conversationId t s =
     perform (UpdateConversationTitle conversationId t)
       (s\<lparr>conversations :=
             map (\<lambda>c. if c_id c = conversationId then c\<lparr>c_title := Some t\<rparr> else c)
                 (conversations s)\<rparr>)"

text \<open>The columns \<open>role\<close> and \<open>content\<close> of a row, as the provider is given them.\<close>

definition role_content :: "message \<Rightarrow> role \<times> string" where
  "role_content m = (m_role m, m_content m)"

subsection \<open>Consuming the stream in \<open>handleChat\<close>\<close>

text \<open>
  How a \<open>for await\<close> loop inside its \<open>try\<close> block is left: the sequence is exhausted, an
  \<open>AbortError\<close> is caught and logged, or another error is thrown again.
\<close>

datatype loop_exit = Exhausted | CaughtAbortError | Rethrown

fun exit_of :: "stream_end \<Rightarrow> loop_exit" where
  "exit_of EndOfStream = Exhausted"
| "exit_of AbortError = CaughtAbortError"
| "exit_of OtherError = Rethrown"

text \<open>
  The last statement of the loop body: when the map is not empty and its first entry has a
  name, a \<open>chat.stream.done\<close> frame with that name and the arguments gathered so far.
\<close>

definition send_function_call :: "string \<Rightarrow> string \<Rightarrow> tool_call_map \<Rightarrow> session \<Rightarrow> session" where
  "send_function_call eventId conversationId toolCallMap s =
     (case toolCallMap of
        [] \<Rightarrow> s
      | (_, toolCall) # _ \<Rightarrow>
          if truthy (function_name toolCall)
          then ws_send (StreamDone eventId conversationId
                 (Some (or_empty (function_name toolCall),
                        or_empty (function_arguments toolCall)))) s
          else s)"

text \<open>\<open>delta.tool_calls ?? []\<close>\<close>

definition tool_calls_or_nil :: "delta \<Rightarrow> tool_call list" where
  "tool_calls_or_nil d = (case d_tool_calls d of None \<Rightarrow> [] | Some tcs \<Rightarrow> tcs)"

text \<open>The loop body for the delta of the chunk's first choice.\<close>

definition chat_delta ::
  "string \<Rightarrow> string \<Rightarrow> delta \<Rightarrow> string \<times> tool_call_map \<times> session
     \<Rightarrow> string \<times> tool_call_map \<times> session" where
  "chat_delta eventId conversationId d st =
     (case st of (response, toolCallMap, s) \<Rightarrow>
        let chunkContent = d_content d;
            response1 = (if truthy chunkContent then response @ or_empty chunkContent
                         else response);
            s1 = (if truthy chunkContent
                  then ws_send (StreamResponse eventId conversationId (or_empty chunkContent)) s
                  else s);
            toolCallMap1 = foldl merge_tool_call toolCallMap (tool_calls_or_nil d)
        in (response1, toolCallMap1,
            send_function_call eventId conversationId toolCallMap1 s1))"

text \<open>
  The loop. \<open>chunk.choices[0].delta\<close> on a chunk without choices throws a \<open>TypeError\<close>,
  which the \<open>catch\<close> block throws again.
\<close>

fun chat_stream ::
  "string \<Rightarrow> string \<Rightarrow> chunk list \<Rightarrow> stream_end \<Rightarrow> string \<times> tool_call_map \<times> session
     \<Rightarrow> loop_exit \<times> string \<times> tool_call_map \<times> session" where
  "chat_stream eventId conversationId [] e st = (exit_of e, st)"
| "chat_stream eventId conversationId ([] # rest) e st = (Rethrown, st)"
| "chat_stream eventId conversationId ((d # ds) # rest) e st =
     chat_stream eventId conversationId rest e (chat_delta eventId conversationId d st)"

subsection \<open>\<open>handleChat\<close>\<close>

text \<open>The outer \<open>catch\<close> block.\<close>

definition handleChat_catch :: "string \<Rightarrow> session \<Rightarrow> session" where
  "handleChat_catch eventId s = ws_send (ErrorFrame eventId ''An internal error occurred'') s"

text \<open>
  The title: the call, \<open>completion.choices[0].message\<close> (a \<open>TypeError\<close> when there is no
  choice), \<open>titleResponse.content || "{}"\<close> parsed, and the update and the frame when the
  title is not empty. Every throw in the block is caught and logged.
\<close>

definition derive_title ::
  "env \<Rightarrow> string \<Rightarrow> string \<Rightarrow> (role \<times> string) list \<Rightarrow> session \<Rightarrow> session" where
  "derive_title ev eventId conversationId messagesForTitle s =
     (let s1 = perform (TitleCompletionsCreate messagesForTitle) s
      in case title_completions_create ev of
           TitleCreateThrows \<Rightarrow> s1
         | TitleChoices choices \<Rightarrow>
             (case choices of
                [] \<Rightarrow> s1
              | content # _ \<Rightarrow>
                  (case parse_title ev (if truthy content then or_empty content else ''{}'') of
                     None \<Rightarrow> s1
                   | Some t \<Rightarrow>
                       if t \<noteq> []
                       then ws_send (TitleUpdate eventId conversationId t)
                              (update_title conversationId t s1)
                       else s1)))"

text \<open>The statements after the loop, from the last \<open>chat.stream.done\<close> frame on.\<close>

definition complete_turn ::
  "env \<Rightarrow> string \<Rightarrow> string \<Rightarrow> conversation \<Rightarrow> (role \<times> string) list \<Rightarrow> string
     \<Rightarrow> session \<Rightarrow> session" where
  "complete_turn ev eventId conversationId conv msgs response s =
     (let s1 = ws_send (StreamDone eventId conversationId None) s;
          s2 = insert_message ev conversationId Assistant response s1;
          s3 = touch_conversation ev conversationId s2
      in if c_title conv = None
         then derive_title ev eventId conversationId (msgs @ [(Assistant, response)]) s3
         else s3)"

text \<open>
  The handler waits for the provider, and the object receives other messages meanwhile
  (this is how a \<open>chat.stream.cancel\<close> reaches a running generation). The handler is
  therefore given in two parts: up to the call of the provider, which leaves a task that
  holds what the rest of the handler reads (or none, when the handler has ended), and
  from the provider's answer on. \<open>handleChat\<close> is the two in sequence.
\<close>

record chat_task =
  ct_eventId :: string
  ct_conversationId :: string
  ct_conversation :: conversation
  ct_messages :: "(role \<times> string) list"
  ct_signal :: nat

definition handleChat_begin ::
  "env \<Rightarrow> string \<Rightarrow> string \<Rightarrow> string \<Rightarrow> string \<Rightarrow> session \<Rightarrow> chat_task option \<times> session" where
  "handleChat_begin ev eventId conversationId content model s =
     (let s0 = new_AbortController s
      in case find_conversation conversationId s0 of
           None \<Rightarrow> (None, handleChat_catch eventId s0)
         | Some conv \<Rightarrow>
             let s1 = insert_message ev conversationId User content s0;
                 msgs = map role_content (find_messages conversationId s1);
                 s2 = perform (ChatCompletionsCreate model msgs (abortController s1) False) s1
             in (Some \<lparr>ct_eventId = eventId, ct_conversationId = conversationId,
                       ct_conversation = conv, ct_messages = msgs,
                       ct_signal = abortController s1\<rparr>, s2))"

definition handleChat_resume :: "env \<Rightarrow> chat_task \<Rightarrow> session \<Rightarrow> session" where
  "handleChat_resume ev task s =
     (case chat_completions_create ev of
        CreateThrows \<Rightarrow> handleChat_catch (ct_eventId task) s
      | Stream chunks e \<Rightarrow>
          (case chat_stream (ct_eventId task) (ct_conversationId task) chunks e ([], [], s) of
             (ex, response, toolCallMap, s1) \<Rightarrow>
               if ex = Rethrown then handleChat_catch (ct_eventId task) s1
               else complete_turn ev (ct_eventId task) (ct_conversationId task)
                      (ct_conversation task) (ct_messages task) response s1))"

definition handleChat ::
  "env \<Rightarrow> string \<Rightarrow> string \<Rightarrow> string \<Rightarrow> string \<Rightarrow> session \<Rightarrow> session" where
  "handleChat ev eventId conversationId content model s =
     (case handleChat_begin ev eventId conversationId content model s of
        (None, s1) \<Rightarrow> s1
      | (Some task, s1) \<Rightarrow> handleChat_resume ev task s1)"

subsection \<open>\<open>handleRegenerate\<close>\<close>

text \<open>\<open>chunk.choices?.[0]?.delta?.content\<close>, which is \<open>undefined\<close> without a choice.\<close>

definition chunk_content :: "chunk \<Rightarrow> string option" where
  "chunk_content ch = (case ch of [] \<Rightarrow> None | d # _ \<Rightarrow> d_content d)"

text \<open>The loop body.\<close>

definition regenerate_chunk ::
  "string \<Rightarrow> string \<Rightarrow> chunk \<Rightarrow> string \<times> session \<Rightarrow> string \<times> session" where
  "regenerate_chunk eventId conversationId c st =
     (case st of (newResponse, s) \<Rightarrow>
        let chunkContent = chunk_content c
        in if truthy chunkContent
           then (newResponse @ or_empty chunkContent,
                 ws_send (StreamResponse eventId conversationId (or_empty chunkContent)) s)
           else (newResponse, s))"

fun regenerate_stream ::
  "string \<Rightarrow> string \<Rightarrow> chunk list \<Rightarrow> stream_end \<Rightarrow> string \<times> session
     \<Rightarrow> loop_exit \<times> string \<times> session" where
  "regenerate_stream eventId conversationId [] e st = (exit_of e, st)"
| "regenerate_stream eventId conversationId (c # rest) e st =
     regenerate_stream eventId conversationId rest e
       (regenerate_chunk eventId conversationId c st)"

text \<open>The outer \<open>catch\<close> block; the socket is open.\<close>

definition handleRegenerate_catch :: "string \<Rightarrow> session \<Rightarrow> session" where
  "handleRegenerate_catch eventId s =
     ws_send (ErrorFrame eventId ''An internal error occurred during regeneration.'') s"

record regenerate_task =
  rt_eventId :: string
  rt_conversationId :: string
  rt_lastAssistantMessageId :: string
  rt_signal :: nat

definition handleRegenerate_begin ::
  "string \<Rightarrow> string \<Rightarrow> string \<Rightarrow> session \<Rightarrow> regenerate_task option \<times> session" where
  "handleRegenerate_begin eventId conversationId model s =
     (let s0 = new_AbortController s;
          allMessages = find_messages conversationId s0
      in if length allMessages < 2 \<or> m_role (last allMessages) \<noteq> Assistant
         then (None, ws_send (ErrorFrame eventId ''Cannot regenerate the last message.'') s0)
         else
           let lastAssistantMessage = last allMessages;
               messagesForRegeneration = map role_content (butlast allMessages);
               s1 = perform (ChatCompletionsCreate model messagesForRegeneration
                               (abortController s0) True) s0
           in (Some \<lparr>rt_eventId = eventId, rt_conversationId = conversationId,
                     rt_lastAssistantMessageId = m_id lastAssistantMessage,
                     rt_signal = abortController s0\<rparr>, s1))"

definition handleRegenerate_resume :: "env \<Rightarrow> regenerate_task \<Rightarrow> session \<Rightarrow> session" where
  "handleRegenerate_resume ev task s =
     (case chat_completions_create ev of
        CreateThrows \<Rightarrow> handleRegenerate_catch (rt_eventId task) s
      | Stream chunks e \<Rightarrow>
          (case regenerate_stream (rt_eventId task) (rt_conversationId task) chunks e ([], s) of
             (ex, newResponse, s1) \<Rightarrow>
               if ex = CaughtAbortError then s1
               else if ex = Rethrown then handleRegenerate_catch (rt_eventId task) s1
               else touch_conversation ev (rt_conversationId task)
                      (update_message_content (rt_lastAssistantMessageId task) newResponse
                         (ws_send (StreamDone (rt_eventId task) (rt_conversationId task) None)
                            s1))))"

definition handleRegenerate :: "env \<Rightarrow> string \<Rightarrow> string \<Rightarrow> string \<Rightarrow> session \<Rightarrow> session" where
  "handleRegenerate ev eventId conversationId model s =
     (case handleRegenerate_begin eventId conversationId model s of
        (None, s1) \<Rightarrow> s1
      | (Some task, s1) \<Rightarrow> handleRegenerate_resume ev task s1)"

subsection \<open>\<open>webSocketMessage\<close>\<close>


subsection \<open>A cancel command during a regeneration\<close>


subsection \<open>Reading a trace\<close>

text \<open>The frames sent, the rows inserted and the calls made, each in the order of the trace.\<close>

fun sent_of :: "effect \<Rightarrow> server_message list" where
  "sent_of (WsSend m) = [m]"
| "sent_of _ = []"

definition sent :: "effect list \<Rightarrow> server_message list" where
  "sent tr = concat (map sent_of tr)"

fun text_of :: "server_message \<Rightarrow> string" where
  "text_of (StreamResponse eventId conversationId content) = content"
| "text_of _ = []"

text \<open>The concatenation of the \<open>content\<close> of the \<open>chat.stream.response\<close> frames.\<close>

definition streamed_text :: "effect list \<Rightarrow> string" where
  "streamed_text tr = concat (map text_of (sent tr))"

fun done_of :: "server_message \<Rightarrow> (string \<times> string) option list" where
  "done_of (StreamDone eventId conversationId function_call) = [function_call]"
| "done_of _ = []"

text \<open>The \<open>function_call\<close> of every \<open>chat.stream.done\<close> frame.\<close>

definition done_events :: "effect list \<Rightarrow> (string \<times> string) option list" where
  "done_events tr = concat (map done_of (sent tr))"

fun inserted_of :: "effect \<Rightarrow> message list" where
  "inserted_of (InsertMessage m) = [m]"
| "inserted_of _ = []"

definition inserted :: "effect list \<Rightarrow> message list" where
  "inserted tr = concat (map inserted_of tr)"

definition assistant_inserted :: "effect list \<Rightarrow> message list" where
  "assistant_inserted tr = filter (\<lambda>m. m_role m = Assistant) (inserted tr)"

fun is_provider_call :: "effect \<Rightarrow> bool" where
  "is_provider_call (ChatCompletionsCreate model msgs signal skip) = True"
| "is_provider_call (TitleCompletionsCreate msgs) = True"
| "is_provider_call _ = False"

fun is_title_call :: "effect \<Rightarrow> bool" where
  "is_title_call (TitleCompletionsCreate msgs) = True"
| "is_title_call _ = False"

fun is_title_frame :: "server_message \<Rightarrow> bool" where
  "is_title_frame (TitleUpdate eventId conversationId t) = True"
| "is_title_frame _ = False"

fun is_error_frame :: "server_message \<Rightarrow> bool" where
  "is_error_frame (ErrorFrame eventId msg) = True"
| "is_error_frame _ = False"

text \<open>What a handler adds to the trace of the state it starts in.\<close>

definition added :: "session \<Rightarrow> session \<Rightarrow> effect list" where
  "added s s1 = drop (length (trace s)) (trace s1)"

subsection \<open>Closed forms of the loops and of the trace\<close>

text \<open>
  Functions of the input alone that the proofs relate the handlers to: the deltas a
  \<open>handleChat\<close> loop processes before it stops, how it stops, the frames it sends, and
  the rows and effects of a completed turn.
\<close>

fun processed :: "chunk list \<Rightarrow> delta list" where
  "processed [] = []"
| "processed ([] # rest) = []"
| "processed ((d # ds) # rest) = d # processed rest"

fun chat_exit :: "chunk list \<Rightarrow> stream_end \<Rightarrow> loop_exit" where
  "chat_exit [] e = exit_of e"
| "chat_exit ([] # rest) e = Rethrown"
| "chat_exit ((d # ds) # rest) e = chat_exit rest e"

definition delta_text :: "delta \<Rightarrow> string" where
  "delta_text d = or_empty (d_content d)"

definition function_call_of :: "tool_call_map \<Rightarrow> (string \<times> string) list" where
  "function_call_of toolCallMap =
     (case toolCallMap of
        [] \<Rightarrow> []
      | (_, toolCall) # _ \<Rightarrow>
          if truthy (function_name toolCall)
          then [(or_empty (function_name toolCall), or_empty (function_arguments toolCall))]
          else [])"

fun stream_frames :: "string \<Rightarrow> string \<Rightarrow> tool_call_map \<Rightarrow> delta list \<Rightarrow> server_message list" where
  "stream_frames eventId conversationId m [] = []"
| "stream_frames eventId conversationId m (d # ds) =
     (let m1 = foldl merge_tool_call m (tool_calls_or_nil d)
      in (if truthy (d_content d) then [StreamResponse eventId conversationId (delta_text d)] else [])
         @ map (\<lambda>fc. StreamDone eventId conversationId (Some fc)) (function_call_of m1)
         @ stream_frames eventId conversationId m1 ds)"

definition send_all :: "server_message list \<Rightarrow> session \<Rightarrow> session" where
  "send_all ms s = s\<lparr>trace := trace s @ map WsSend ms\<rparr>"

definition obtained_title :: "env \<Rightarrow> string option" where
  "obtained_title ev =
     (case title_completions_create ev of
        TitleCreateThrows \<Rightarrow> None
      | TitleChoices choices \<Rightarrow>
          (case choices of
             [] \<Rightarrow> None
           | content # _ \<Rightarrow>
               (case parse_title ev (if truthy content then or_empty content else ''{}'') of
                  None \<Rightarrow> None
                | Some t \<Rightarrow> if t \<noteq> [] then Some t else None)))"

definition title_effects :: "env \<Rightarrow> string \<Rightarrow> string \<Rightarrow> (role \<times> string) list \<Rightarrow> effect list" where
  "title_effects ev eventId conversationId msgs =
     TitleCompletionsCreate msgs #
     (case obtained_title ev of
        None \<Rightarrow> []
      | Some t \<Rightarrow> [UpdateConversationTitle conversationId t,
                   WsSend (TitleUpdate eventId conversationId t)])"

definition user_row :: "env \<Rightarrow> string \<Rightarrow> string \<Rightarrow> session \<Rightarrow> message" where
  "user_row ev c content s = new_message ev c User content s"

definition history :: "env \<Rightarrow> string \<Rightarrow> string \<Rightarrow> session \<Rightarrow> (role \<times> string) list" where
  "history ev c content s =
     map role_content
       (find_messages c (s\<lparr>messages := messages s @ [user_row ev c content s]\<rparr>))"

definition assistant_row :: "env \<Rightarrow> string \<Rightarrow> string \<Rightarrow> session \<Rightarrow> message" where
  "assistant_row ev c response s = new_message ev c Assistant response (s\<lparr>ticks := Suc (ticks s)\<rparr>)"

text \<open>The \<open>function_call\<close> frames of the loop, one list per delta.\<close>

fun interim_calls :: "tool_call_map \<Rightarrow> delta list \<Rightarrow> (string \<times> string) list" where
  "interim_calls m [] = []"
| "interim_calls m (d # ds) =
     (let m1 = foldl merge_tool_call m (tool_calls_or_nil d)
      in function_call_of m1 @ interim_calls m1 ds)"

text \<open>
  The claim that the assistant's row is written before any \<open>chat.stream.done\<close> frame is
  sent: no such frame in the part of the trace that precedes the first insert of an
  assistant row.
\<close>

fun is_assistant_insert :: "effect \<Rightarrow> bool" where
  "is_assistant_insert (InsertMessage m) = (m_role m = Assistant)"
| "is_assistant_insert _ = False"

definition persisted_before_done :: "effect list \<Rightarrow> bool" where
  "persisted_before_done tr =
     (done_events (takeWhile (\<lambda>e. \<not> is_assistant_insert e) tr) = [])"

text \<open>The frames of a \<open>handleRegenerate\<close> loop, and the effects that write to a table.\<close>

definition regenerate_frames :: "string \<Rightarrow> string \<Rightarrow> chunk list \<Rightarrow> server_message list" where
  "regenerate_frames eventId c chunks =
     concat (map (\<lambda>ch. if truthy (chunk_content ch)
                         then [StreamResponse eventId c (or_empty (chunk_content ch))]
                         else []) chunks)"


text \<open>
  The failures of the title block in the words of the specification: a provider error
  (the call throws), a malformed output (no choice, or a content that does not parse to
  an object with a \<open>title\<close> string), an empty title.
\<close>

definition title_fails :: "env \<Rightarrow> bool" where
  "title_fails ev =
     (case title_completions_create ev of
        TitleCreateThrows \<Rightarrow> True
      | TitleChoices choices \<Rightarrow>
          (case choices of
             [] \<Rightarrow> True
           | content # _ \<Rightarrow>
               (case parse_title ev (if truthy content then or_empty content else ''{}'') of
                  None \<Rightarrow> True
                | Some t \<Rightarrow> t = [])))"

subsection \<open>Example inputs\<close>

text \<open>Fragments of two calls, streamed with interleaved indices.\<close>

definition frag :: "nat \<Rightarrow> string option \<Rightarrow> string option \<Rightarrow> string option \<Rightarrow> tool_call" where
  "frag i ident nm args =
     \<lparr>tc_index = i, tc_id = ident, tc_type = None,
      tc_function = Some \<lparr>fn_name = nm, fn_arguments = args\<rparr>\<rparr>"

definition example_fragments :: "tool_call list" where
  "example_fragments =
     [frag 0 (Some ''call_a'') (Some ''lookup'') None,
      frag 1 (Some ''call_b'') None (Some ''{''),
      frag 0 None (Some '''') (Some ''{q:''),
      frag 1 (Some '''') (Some ''search'') (Some ''}''),
      frag 0 None None (Some ''x}'')]"

text \<open>
  A conversation without a title in an object just constructed, a provider that streams
  two text deltas, and a parser of titles that accepts two texts.
\<close>

definition text_delta :: "string \<Rightarrow> delta" where
  "text_delta x = \<lparr>d_content = Some x, d_tool_calls = None\<rparr>"

definition tool_delta :: "tool_call list \<Rightarrow> delta" where
  "tool_delta tcs = \<lparr>d_content = None, d_tool_calls = Some tcs\<rparr>"

definition example_parse :: "string \<Rightarrow> string option" where
  "example_parse x =
     (if x = ''{title:Greeting}'' then Some ''Greeting''
      else if x = ''{title:}'' then Some [] else None)"

definition example_env :: "completion \<Rightarrow> title_completion \<Rightarrow> env" where
  "example_env cc tc =
     \<lparr>chat_completions_create = cc, title_completions_create = tc,
      parse_title = example_parse,
      randomUUID = (\<lambda>n. replicate (Suc n) (CHR ''u'')),
      now = (\<lambda>n. 100 + n)\<rparr>"

definition example_conversation :: conversation where
  "example_conversation =
     \<lparr>c_id = ''c1'', c_user_id = ''1'', c_title = None, c_pinned = False,
      c_created_at = 1, c_updated_at = 1\<rparr>"

definition example_session :: session where
  "example_session = constructor [example_conversation] []"

definition example_chunks :: "chunk list" where
  "example_chunks = [text_delta ''Hi''] # [text_delta '' there''] # []"

definition example_stream_env :: env where
  "example_stream_env =
     example_env (Stream example_chunks EndOfStream) (TitleChoices [Some ''{title:Greeting}''])"

text \<open>
  A stream of two tool-call deltas for one call, a history of one turn, a later question
  of the user, and a provider whose stream is aborted after one delta.
\<close>

definition example_call_chunks :: "chunk list" where
  "example_call_chunks =
     [tool_delta [frag 0 (Some ''call_a'') (Some ''lookup'') (Some ''{q:'')] ]
     # [tool_delta [frag 0 None None (Some ''x}'')] ] # []"

definition example_call_env :: "stream_end \<Rightarrow> env" where
  "example_call_env e = example_env (Stream example_call_chunks e) TitleCreateThrows"

definition example_history :: "message list" where
  "example_history =
     [\<lparr>m_id = ''m1'', m_user_id = ''1'', m_conversation_id = ''c1'', m_role = User,
       m_content = ''Hello'', m_created_at = 2, m_updated_at = 2\<rparr>,
      \<lparr>m_id = ''m2'', m_user_id = ''1'', m_conversation_id = ''c1'', m_role = Assistant,
       m_content = ''Hi there'', m_created_at = 3, m_updated_at = 3\<rparr>]"

definition example_followup :: message where
  "example_followup =
     \<lparr>m_id = ''m3'', m_user_id = ''1'', m_conversation_id = ''c1'', m_role = User,
      m_content = ''And then?'', m_created_at = 4, m_updated_at = 4\<rparr>"

definition example_partial_chunks :: "chunk list" where
  "example_partial_chunks = [text_delta ''Partial ''] # []"

definition example_cancelled_env :: env where
  "example_cancelled_env =
     example_env (Stream example_partial_chunks AbortError) TitleCreateThrows"



text \<open>
  A provider whose title is malformed; and two \<open>chat.stream.create\<close> commands on the
  example's conversation, the second handled while the first waits for its provider.
\<close>

definition example_malformed_env :: env where
  "example_malformed_env =
     example_env (Stream example_chunks EndOfStream) (TitleChoices [Some ''no title''])"

definition example_first :: "chat_task option \<times> session" where
  "example_first =
     handleChat_begin example_stream_env ''e1'' ''c1'' ''Hello'' ''llama'' example_session"

definition example_second :: "chat_task option \<times> session" where
  "example_second =
     handleChat_begin example_stream_env ''e2'' ''c1'' ''Hello again'' ''llama''
       (snd example_first)"

section \<open>The accumulator\<close>

lemma map_of_merge_tool_call:
  "map_of (merge_tool_call m f) =
     (map_of m)(tc_index f \<mapsto>
        (case map_of m (tc_index f) of
           Some e \<Rightarrow> update_existing e f
         | None \<Rightarrow> new_entry f))"
proof (cases "map_of m (tc_index f)")
  case None
  then have "[tc_index f \<mapsto> new_entry f] ++ map_of m = (map_of m)(tc_index f \<mapsto> new_entry f)"
    by (auto simp: map_add_def fun_eq_iff split: option.split)
  with None show ?thesis
    by (simp add: merge_tool_call_def)
next
  case (Some e)
  then show ?thesis
    by (simp add: merge_tool_call_def update_conv')
qed

lemma accumulate_snoc: "accumulate (fs @ [f]) = merge_tool_call (accumulate fs) f"
  by (simp add: accumulate_def)

lemma last_non_empty_single: "last_non_empty [v] = v"
  by (simp add: last_non_empty_def)

lemma last_non_empty_snoc:
  "vs \<noteq> [] \<Longrightarrow> last_non_empty (vs @ [v]) = (if truthy v then v else last_non_empty vs)"
  by (cases vs) (simp_all add: last_non_empty_def split: list.split)

lemma new_entry_spec: "tc_index f = i \<Longrightarrow> new_entry f = spec_entry i [f]"
  by (simp add: new_entry_def spec_entry_def last_non_empty_single)

lemma or_empty_not_truthy: "\<not> truthy v \<Longrightarrow> or_empty v = []"
  by (cases v) simp_all

lemma update_existing_spec:
  assumes "fs \<noteq> []"
  shows "update_existing (spec_entry i fs) f = spec_entry i (fs @ [f])"
  using assms
  by (simp add: update_existing_def spec_entry_def function_or_new_def Let_def
      last_non_empty_snoc or_empty_not_truthy)

lemma map_of_accumulate:
  "map_of (accumulate fs) i =
     (if addressed_to i fs = [] then None else Some (spec_entry i (addressed_to i fs)))"
proof (induction fs rule: rev_induct)
  case Nil
  show ?case by (simp add: accumulate_def addressed_to_def)
next
  case (snoc f fs)
  show ?case
  proof (cases "tc_index f = i")
    case False
    then show ?thesis
      using snoc.IH by (simp add: accumulate_snoc map_of_merge_tool_call addressed_to_def)
  next
    case True
    show ?thesis
    proof (cases "addressed_to i fs = []")
      case True
      with \<open>tc_index f = i\<close> snoc.IH show ?thesis
        by (simp add: accumulate_snoc map_of_merge_tool_call addressed_to_def new_entry_spec)
    next
      case False
      with \<open>tc_index f = i\<close> snoc.IH show ?thesis
        by (simp add: accumulate_snoc map_of_merge_tool_call addressed_to_def
            update_existing_spec)
    qed
  qed
qed

section \<open>The handlers in closed form\<close>

lemma perform_simps [simp]:
  "trace (perform e s) = trace s @ [e]"
  "messages (perform e s) = messages s"
  "conversations (perform e s) = conversations s"
  "controllers (perform e s) = controllers s"
  "abortController (perform e s) = abortController s"
  "ticks (perform e s) = ticks s"
  by (simp_all add: perform_def)

lemma ws_send_simps [simp]:
  "trace (ws_send m s) = trace s @ [WsSend m]"
  "messages (ws_send m s) = messages s"
  "conversations (ws_send m s) = conversations s"
  "controllers (ws_send m s) = controllers s"
  "abortController (ws_send m s) = abortController s"
  "ticks (ws_send m s) = ticks s"
  by (simp_all add: ws_send_def)

lemma send_all_nil [simp]: "send_all [] s = s"
  by (simp add: send_all_def)

lemma ws_send_send_all: "ws_send m (send_all ms s) = send_all (ms @ [m]) s"
  by (simp add: send_all_def ws_send_def perform_def)

lemma send_all_send_all: "send_all ms2 (send_all ms1 s) = send_all (ms1 @ ms2) s"
  by (simp add: send_all_def)

lemma ws_send_eq: "ws_send m s = send_all [m] s"
  by (simp add: send_all_def ws_send_def perform_def)

lemma send_function_call_eq:
  "send_function_call eventId conversationId m s =
     send_all (map (\<lambda>fc. StreamDone eventId conversationId (Some fc)) (function_call_of m)) s"
  by (simp add: send_function_call_def function_call_of_def ws_send_eq split: list.split prod.split)

lemma chat_delta_eq:
  "chat_delta eventId conversationId d (r, m, s) =
     (r @ delta_text d, foldl merge_tool_call m (tool_calls_or_nil d),
      send_all (stream_frames eventId conversationId m [d]) s)"
  by (simp add: chat_delta_def Let_def send_function_call_eq ws_send_eq send_all_send_all
      delta_text_def or_empty_not_truthy)

lemma chat_stream_eq:
  "chat_stream eventId conversationId chunks e (r, m, s) =
     (chat_exit chunks e, r @ concat (map delta_text (processed chunks)),
      foldl merge_tool_call m (concat (map tool_calls_or_nil (processed chunks))),
      send_all (stream_frames eventId conversationId m (processed chunks)) s)"
proof (induction chunks arbitrary: r m s)
  case Nil
  show ?case by simp
next
  case (Cons c chunks)
  show ?case
  proof (cases c)
    case Nil
    then show ?thesis by simp
  next
    case (Cons d ds)
    then show ?thesis
      by (simp add: chat_delta_eq Cons.IH send_all_send_all Let_def)
  qed
qed

lemma new_AbortController_simps [simp]:
  "trace (new_AbortController s) = trace s"
  "messages (new_AbortController s) = messages s"
  "conversations (new_AbortController s) = conversations s"
  "controllers (new_AbortController s) = controllers s @ [False]"
  "abortController (new_AbortController s) = length (controllers s)"
  "ticks (new_AbortController s) = ticks s"
  by (simp_all add: new_AbortController_def)

lemma insert_message_simps [simp]:
  "trace (insert_message ev c r x s) = trace s @ [InsertMessage (new_message ev c r x s)]"
  "messages (insert_message ev c r x s) = messages s @ [new_message ev c r x s]"
  "conversations (insert_message ev c r x s) = conversations s"
  "controllers (insert_message ev c r x s) = controllers s"
  "abortController (insert_message ev c r x s) = abortController s"
  "ticks (insert_message ev c r x s) = Suc (ticks s)"
  by (simp_all add: insert_message_def Let_def)

lemma touch_conversation_simps [simp]:
  "trace (touch_conversation ev c s) = trace s @ [UpdateConversationUpdatedAt c (now ev (ticks s))]"
  "messages (touch_conversation ev c s) = messages s"
  "map c_title (conversations (touch_conversation ev c s)) = map c_title (conversations s)"
  "map c_id (conversations (touch_conversation ev c s)) = map c_id (conversations s)"
  "controllers (touch_conversation ev c s) = controllers s"
  "abortController (touch_conversation ev c s) = abortController s"
  "ticks (touch_conversation ev c s) = Suc (ticks s)"
  by (simp_all add: touch_conversation_def Let_def)

lemma update_title_simps [simp]:
  "trace (update_title c t s) = trace s @ [UpdateConversationTitle c t]"
  "messages (update_title c t s) = messages s"
  "controllers (update_title c t s) = controllers s"
  "abortController (update_title c t s) = abortController s"
  "ticks (update_title c t s) = ticks s"
  by (simp_all add: update_title_def)

lemma update_message_content_simps [simp]:
  "trace (update_message_content i x s) = trace s @ [UpdateMessageContent i x]"
  "conversations (update_message_content i x s) = conversations s"
  "controllers (update_message_content i x s) = controllers s"
  "abortController (update_message_content i x s) = abortController s"
  "ticks (update_message_content i x s) = ticks s"
  by (simp_all add: update_message_content_def)

lemma send_all_simps [simp]:
  "trace (send_all ms s) = trace s @ map WsSend ms"
  "messages (send_all ms s) = messages s"
  "conversations (send_all ms s) = conversations s"
  "controllers (send_all ms s) = controllers s"
  "abortController (send_all ms s) = abortController s"
  "ticks (send_all ms s) = ticks s"
  by (simp_all add: send_all_def)

lemma find_conversation_cong:
  "conversations s1 = conversations s \<Longrightarrow> find_conversation c s1 = find_conversation c s"
  by (simp add: find_conversation_def)

lemma find_messages_cong:
  "messages s1 = messages s \<Longrightarrow> find_messages c s1 = find_messages c s"
  by (simp add: find_messages_def)

lemma derive_title_trace:
  "trace (derive_title ev eventId c msgs s) = trace s @ title_effects ev eventId c msgs"
  by (simp add: derive_title_def title_effects_def obtained_title_def Let_def
      split: title_completion.split list.split option.split)

lemma derive_title_fields:
  "messages (derive_title ev eventId c msgs s) = messages s"
  "controllers (derive_title ev eventId c msgs s) = controllers s"
  "abortController (derive_title ev eventId c msgs s) = abortController s"
  by (simp_all add: derive_title_def Let_def
      split: title_completion.split list.split option.split)

lemma derive_title_conversations:
  "conversations (derive_title ev eventId c msgs s) =
     (case obtained_title ev of
        None \<Rightarrow> conversations s
      | Some t \<Rightarrow> map (\<lambda>cv. if c_id cv = c then cv\<lparr>c_title := Some t\<rparr> else cv) (conversations s))"
  by (simp add: derive_title_def obtained_title_def Let_def update_title_def ws_send_def perform_def
      split: title_completion.split list.split option.split)

lemma new_message_ticks:
  "ticks s1 = ticks s \<Longrightarrow> new_message ev c r x s1 = new_message ev c r x s"
  by (simp add: new_message_def)

lemma handleChat_begin_eq:
  assumes "find_conversation c s = Some conv"
  shows "handleChat_begin ev eventId c content model s =
     (Some \<lparr>ct_eventId = eventId, ct_conversationId = c, ct_conversation = conv,
            ct_messages = history ev c content s, ct_signal = length (controllers s)\<rparr>,
      perform (ChatCompletionsCreate model (history ev c content s) (length (controllers s)) False)
        (insert_message ev c User content (new_AbortController s)))"
proof -
  have fc: "find_conversation c (new_AbortController s) = Some conv"
    using assms by (simp add: find_conversation_def)
  have fm: "find_messages c (insert_message ev c User content (new_AbortController s))
      = find_messages c (s\<lparr>messages := messages s @ [user_row ev c content s]\<rparr>)"
    by (rule find_messages_cong) (simp add: user_row_def new_message_def)
  show ?thesis
    by (simp add: handleChat_begin_def Let_def fc fm history_def)
qed

lemma handleChat_trace:
  assumes "find_conversation c s = Some conv"
    and "chat_completions_create ev = Stream chunks e"
    and "chat_exit chunks e \<noteq> Rethrown"
  shows "trace (handleChat ev eventId c content model s) =
     trace s
     @ [InsertMessage (user_row ev c content s),
        ChatCompletionsCreate model (history ev c content s) (length (controllers s)) False]
     @ map WsSend (stream_frames eventId c [] (processed chunks))
     @ [WsSend (StreamDone eventId c None),
        InsertMessage (assistant_row ev c (concat (map delta_text (processed chunks))) s),
        UpdateConversationUpdatedAt c (now ev (Suc (Suc (ticks s))))]
     @ (if c_title conv = None
        then title_effects ev eventId c
               (history ev c content s
                @ [(Assistant, concat (map delta_text (processed chunks)))])
        else [])"
  using assms
  by (simp add: handleChat_def handleChat_begin_eq handleChat_resume_def chat_stream_eq
      complete_turn_def Let_def derive_title_trace user_row_def assistant_row_def new_message_def)

lemma handleChat_messages:
  assumes "find_conversation c s = Some conv"
    and "chat_completions_create ev = Stream chunks e"
    and "chat_exit chunks e \<noteq> Rethrown"
  shows "messages (handleChat ev eventId c content model s) =
     messages s @ [user_row ev c content s,
                   assistant_row ev c (concat (map delta_text (processed chunks))) s]"
  using assms
  by (simp add: handleChat_def handleChat_begin_eq handleChat_resume_def chat_stream_eq
      complete_turn_def Let_def derive_title_fields user_row_def assistant_row_def new_message_def)

section \<open>Reading the trace of \<open>handleChat\<close>\<close>

lemma sent_simps [simp]:
  "sent [] = []"
  "sent (xs @ ys) = sent xs @ sent ys"
  "sent (e # xs) = sent_of e @ sent xs"
  "sent (map WsSend ms) = ms"
  by (simp_all add: sent_def) (induction ms, simp_all)

lemma inserted_simps [simp]:
  "inserted [] = []"
  "inserted (xs @ ys) = inserted xs @ inserted ys"
  "inserted (e # xs) = inserted_of e @ inserted xs"
  "inserted (map WsSend ms) = []"
  by (simp_all add: inserted_def)

lemma added_append [simp]: "trace s1 = trace s @ xs \<Longrightarrow> added s s1 = xs"
  by (simp add: added_def)

lemma streamed_text_frames:
  "concat (map text_of (stream_frames eventId c m ds)) = concat (map delta_text ds)"
proof (induction ds arbitrary: m)
  case Nil
  show ?case by simp
next
  case (Cons d ds)
  have "concat (map text_of (map (\<lambda>fc. StreamDone eventId c (Some fc)) fcs)) = []" for fcs
    by (induction fcs) simp_all
  then show ?case
    by (simp add: Let_def Cons.IH delta_text_def or_empty_not_truthy)
qed

lemma done_frames:
  "concat (map done_of (stream_frames eventId c m ds)) = map Some (interim_calls m ds)"
proof (induction ds arbitrary: m)
  case Nil
  show ?case by simp
next
  case (Cons d ds)
  have "concat (map done_of (map (\<lambda>fc. StreamDone eventId c (Some fc)) fcs)) = map Some fcs" for fcs
    by (induction fcs) simp_all
  then show ?case
    by (simp add: Let_def Cons.IH)
qed

lemma title_effects_sent:
  "sent (title_effects ev eventId c msgs) =
     (case obtained_title ev of None \<Rightarrow> [] | Some t \<Rightarrow> [TitleUpdate eventId c t])"
  by (simp add: title_effects_def split: option.split)

lemma title_effects_inserted: "inserted (title_effects ev eventId c msgs) = []"
  by (simp add: title_effects_def split: option.split)

lemma processed_hd: "[] \<notin> set chunks \<Longrightarrow> processed chunks = map hd chunks"
  by (induction chunks rule: processed.induct) simp_all

lemma chat_exit_eq: "[] \<notin> set chunks \<Longrightarrow> chat_exit chunks e = exit_of e"
  by (induction chunks rule: processed.induct) simp_all

lemma exit_of_Rethrown: "(exit_of e = Rethrown) = (e = OtherError)"
  by (cases e) simp_all

lemma handleChat_sent:
  assumes "find_conversation c s = Some conv"
    and "chat_completions_create ev = Stream chunks e"
    and "[] \<notin> set chunks" and "e \<noteq> OtherError"
  shows "sent (added s (handleChat ev eventId c content model s)) =
     stream_frames eventId c [] (map hd chunks) @ [StreamDone eventId c None]
     @ (if c_title conv = None
        then (case obtained_title ev of None \<Rightarrow> [] | Some t \<Rightarrow> [TitleUpdate eventId c t])
        else [])"
proof -
  have ex: "chat_exit chunks e \<noteq> Rethrown"
    using assms by (simp add: chat_exit_eq exit_of_Rethrown)
  show ?thesis
    using handleChat_trace [OF assms(1,2) ex, of eventId content model] assms(3)
    by (simp add: processed_hd title_effects_sent)
qed

lemma handleChat_inserted:
  assumes "find_conversation c s = Some conv"
    and "chat_completions_create ev = Stream chunks e"
    and "[] \<notin> set chunks" and "e \<noteq> OtherError"
  shows "inserted (added s (handleChat ev eventId c content model s)) =
     [user_row ev c content s, assistant_row ev c (concat (map delta_text (map hd chunks))) s]"
proof -
  have ex: "chat_exit chunks e \<noteq> Rethrown"
    using assms by (simp add: chat_exit_eq exit_of_Rethrown)
  show ?thesis
    using handleChat_trace [OF assms(1,2) ex, of eventId content model] assms(3)
    by (simp add: processed_hd title_effects_inserted)
qed

lemma row_simps [simp]:
  "m_role (user_row ev c content s) = User"
  "m_role (assistant_row ev c r s) = Assistant"
  "m_content (assistant_row ev c r s) = r"
  "m_conversation_id (assistant_row ev c r s) = c"
  by (simp_all add: user_row_def assistant_row_def new_message_def)

section \<open>The text streamed and the text persisted\<close>

text \<open>
  Claim C8. In a create-generation whose provider call returns a stream that ends, by
  exhaustion or by an \<open>AbortError\<close>, with every chunk holding a choice, exactly one
  assistant row is inserted; it is the last row of the table, and its content is the
  concatenation of the contents of the \<open>chat.stream.response\<close> frames sent, which is the
  concatenation of the contents of the deltas in arrival order: no fragment is dropped,
  duplicated or reordered between the socket and the table.
\<close>

theorem streamed_text_is_persisted:
  assumes "find_conversation c s = Some conv"
    and "chat_completions_create ev = Stream chunks e"
    and "[] \<notin> set chunks" and "e \<noteq> OtherError"
  shows "\<exists>m. assistant_inserted (added s (handleChat ev eventId c content model s)) = [m]
           \<and> last (messages (handleChat ev eventId c content model s)) = m
           \<and> m_content m = streamed_text (added s (handleChat ev eventId c content model s))
           \<and> m_content m = concat (map (\<lambda>ch. or_empty (d_content (hd ch))) chunks)"
proof -
  have ex: "chat_exit chunks e \<noteq> Rethrown"
    using assms by (simp add: chat_exit_eq exit_of_Rethrown)
  let ?m = "assistant_row ev c (concat (map delta_text (map hd chunks))) s"
  have 1: "assistant_inserted (added s (handleChat ev eventId c content model s)) = [?m]"
    by (simp add: assistant_inserted_def handleChat_inserted [OF assms])
  have 2: "last (messages (handleChat ev eventId c content model s)) = ?m"
    using handleChat_messages [OF assms(1,2) ex, of eventId content model] assms(3)
    by (simp add: processed_hd)
  have 3: "streamed_text (added s (handleChat ev eventId c content model s))
      = concat (map delta_text (map hd chunks))"
  proof -
    have "concat (map text_of
            (if c_title conv = None
             then (case obtained_title ev of None \<Rightarrow> [] | Some t \<Rightarrow> [TitleUpdate eventId c t])
             else [])) = []"
      by (simp split: option.split del: concat_eq_Nil_conv)
    then show ?thesis
      unfolding streamed_text_def handleChat_sent [OF assms]
      by (simp only: map_append concat_append streamed_text_frames)
         (simp del: concat_eq_Nil_conv)
  qed
  have 4: "concat (map delta_text (map hd chunks))
      = concat (map (\<lambda>ch. or_empty (d_content (hd ch))) chunks)"
    by (simp add: delta_text_def comp_def)
  show ?thesis
    using 1 2 3 4 by simp
qed

theorem streamed_text_is_persisted_witness:
  "find_conversation ''c1'' example_session = Some example_conversation
   \<and> chat_completions_create example_stream_env = Stream example_chunks EndOfStream
   \<and> [] \<notin> set example_chunks \<and> EndOfStream \<noteq> OtherError
   \<and> (\<exists>m. assistant_inserted (added example_session
               (handleChat example_stream_env ''e1'' ''c1'' ''Hello'' ''llama'' example_session)) = [m]
          \<and> m_content m = streamed_text (added example_session
               (handleChat example_stream_env ''e1'' ''c1'' ''Hello'' ''llama'' example_session))
          \<and> m_content m = ''Hi there'')"
proof -
  have h1: "find_conversation ''c1'' example_session = Some example_conversation"
    by (simp add: find_conversation_def example_session_def constructor_def
        example_conversation_def)
  have h2: "chat_completions_create example_stream_env = Stream example_chunks EndOfStream"
    by (simp add: example_stream_env_def example_env_def)
  have h3: "[] \<notin> set example_chunks"
    by (simp add: example_chunks_def)
  have h4: "EndOfStream \<noteq> OtherError"
    by simp
  have "concat (map (\<lambda>ch. or_empty (d_content (hd ch))) example_chunks) = ''Hi there''"
    by (simp add: example_chunks_def text_delta_def)
  with streamed_text_is_persisted [OF h1 h2 h3 h4, of "''e1''" "''Hello''" "''llama''"] h1 h2 h3 h4
  show ?thesis by auto
qed

section \<open>The order of the completion frame and the assistant's row\<close>

text \<open>
  Claim C1, as amended. In a create-generation whose stream ends, by exhaustion or by an
  \<open>AbortError\<close>, the \<open>chat.stream.done\<close> frame with \<open>function_call\<close> null is sent
  immediately before the assistant's row is inserted: no assistant row is inserted before
  that frame, and no \<open>chat.stream.done\<close> frame is sent after the insert. The frame
  precedes the write; the write does not precede the frame.
\<close>

theorem turn_complete_sent_before_assistant_persisted:
  assumes "find_conversation c s = Some conv"
    and "chat_completions_create ev = Stream chunks e"
    and "[] \<notin> set chunks" and "e \<noteq> OtherError"
  shows "\<exists>pre post m.
           added s (handleChat ev eventId c content model s)
             = pre @ [WsSend (StreamDone eventId c None), InsertMessage m] @ post
           \<and> m_role m = Assistant
           \<and> assistant_inserted pre = []
           \<and> done_events post = []"
proof -
  have ex: "chat_exit chunks e \<noteq> Rethrown"
    using assms by (simp add: chat_exit_eq exit_of_Rethrown)
  let ?r = "concat (map delta_text (processed chunks))"
  let ?pre = "[InsertMessage (user_row ev c content s),
        ChatCompletionsCreate model (history ev c content s) (length (controllers s)) False]
     @ map WsSend (stream_frames eventId c [] (processed chunks))"
  let ?post = "[UpdateConversationUpdatedAt c (now ev (Suc (Suc (ticks s))))]
     @ (if c_title conv = None
        then title_effects ev eventId c (history ev c content s @ [(Assistant, ?r)])
        else [])"
  have 1: "added s (handleChat ev eventId c content model s)
      = ?pre @ [WsSend (StreamDone eventId c None), InsertMessage (assistant_row ev c ?r s)] @ ?post"
    using handleChat_trace [OF assms(1,2) ex, of eventId content model]
    by simp
  have 2: "assistant_inserted ?pre = []"
    by (simp add: assistant_inserted_def)
  have "sent ?post = (if c_title conv = None
        then (case obtained_title ev of None \<Rightarrow> [] | Some t \<Rightarrow> [TitleUpdate eventId c t])
        else [])"
    by (simp add: title_effects_sent)
  then have 3: "done_events ?post = []"
    unfolding done_events_def
    by (simp split: option.split del: concat_eq_Nil_conv)
  have 4: "m_role (assistant_row ev c ?r s) = Assistant"
    by simp
  from 1 2 3 4 show ?thesis
    by blast
qed

theorem turn_complete_sent_before_assistant_persisted_witness:
  "find_conversation ''c1'' example_session = Some example_conversation
   \<and> chat_completions_create example_stream_env = Stream example_chunks EndOfStream
   \<and> [] \<notin> set example_chunks \<and> EndOfStream \<noteq> OtherError
   \<and> (\<exists>pre post m.
          added example_session
            (handleChat example_stream_env ''e1'' ''c1'' ''Hello'' ''llama'' example_session)
            = pre @ [WsSend (StreamDone ''e1'' ''c1'' None), InsertMessage m] @ post
          \<and> m_role m = Assistant
          \<and> assistant_inserted pre = []
          \<and> done_events post = [])"
proof -
  have h1: "find_conversation ''c1'' example_session = Some example_conversation"
    by (simp add: find_conversation_def example_session_def constructor_def
        example_conversation_def)
  have h2: "chat_completions_create example_stream_env = Stream example_chunks EndOfStream"
    by (simp add: example_stream_env_def example_env_def)
  have h3: "[] \<notin> set example_chunks"
    by (simp add: example_chunks_def)
  have h4: "EndOfStream \<noteq> OtherError"
    by simp
  from turn_complete_sent_before_assistant_persisted
         [OF h1 h2 h3 h4, of "''e1''" "''Hello''" "''llama''"] h1 h2 h3 h4
  show ?thesis by simp
qed

text \<open>
  Claim C1 as stated fails on the run of the example: when the provider streams \<open>Hi\<close> and
  \<open>there\<close> and the sequence is exhausted, a \<open>chat.stream.done\<close> frame is in the trace
  before the assistant's row is inserted.
\<close>

theorem assistant_persisted_before_done_counterexample:
  "\<not> persisted_before_done (added example_session
        (handleChat example_stream_env ''e1'' ''c1'' ''Hello'' ''llama'' example_session))"
  by code_simp

section \<open>The finalized entries of the accumulator\<close>

lemma last_non_empty_some:
  "filter truthy vs \<noteq> [] \<Longrightarrow> last_non_empty vs = last (filter truthy vs)"
  by (cases "rev (filter truthy vs)") (simp_all add: last_non_empty_def last_rev hd_rev [symmetric])

lemma last_non_empty_none:
  "filter truthy vs = [] \<Longrightarrow> \<not> truthy (last_non_empty vs)"
  by (cases vs) (auto simp: last_non_empty_def filter_empty_conv)

lemma last_non_empty_first:
  "filter truthy vs = [] \<Longrightarrow> vs \<noteq> [] \<Longrightarrow> last_non_empty vs = hd vs"
  by (cases vs) (simp_all add: last_non_empty_def)

text \<open>
  Claim C6. For every list of fragments and every index that some fragment is addressed
  to, the map holds an entry at that index; its arguments are the concatenation, in arrival
  order, of the argument texts of the fragments addressed to the index (an absent text
  counting as empty); and each of its identifier, kind and name is the last non-empty value
  the fragments addressed to the index supply, or, when they supply none, the value of the
  first of them, which is absent or empty.
\<close>

theorem accumulator_finalized:
  assumes "addressed_to i fragments = fs" and "fs \<noteq> []"
  shows "\<exists>e. map_of (accumulate fragments) i = Some e
     \<and> function_arguments e = Some (concat (map (\<lambda>f. or_empty (function_arguments f)) fs))
     \<and> (filter truthy (map tc_id fs) \<noteq> []
          \<longrightarrow> tc_id e = last (filter truthy (map tc_id fs)))
     \<and> (filter truthy (map tc_id fs) = []
          \<longrightarrow> tc_id e = tc_id (hd fs) \<and> \<not> truthy (tc_id e))
     \<and> (filter truthy (map tc_type fs) \<noteq> []
          \<longrightarrow> tc_type e = last (filter truthy (map tc_type fs)))
     \<and> (filter truthy (map tc_type fs) = []
          \<longrightarrow> tc_type e = tc_type (hd fs) \<and> \<not> truthy (tc_type e))
     \<and> (filter truthy (map function_name fs) \<noteq> []
          \<longrightarrow> function_name e = last (filter truthy (map function_name fs)))
     \<and> (filter truthy (map function_name fs) = []
          \<longrightarrow> function_name e = function_name (hd fs) \<and> \<not> truthy (function_name e))"
proof -
  let ?e = "spec_entry i fs"
  have 0: "map_of (accumulate fragments) i = Some ?e"
    using assms by (simp add: map_of_accumulate)
  have 1: "function_arguments ?e
      = Some (concat (map (\<lambda>f. or_empty (function_arguments f)) fs))"
    by (simp add: function_arguments_def spec_entry_def)
  have 2: "tc_id ?e = last_non_empty (map tc_id fs)"
    "tc_type ?e = last_non_empty (map tc_type fs)"
    "function_name ?e = last_non_empty (map function_name fs)"
    by (simp_all add: function_name_def spec_entry_def)
  have 3: "filter truthy (map g fs) \<noteq> []
      \<Longrightarrow> last_non_empty (map g fs) = last (filter truthy (map g fs))" for g
    by (rule last_non_empty_some)
  have 4: "filter truthy (map g fs) = [] \<Longrightarrow> last_non_empty (map g fs) = g (hd fs)" for g
    using assms(2) last_non_empty_first [of "map g fs"]
    by (simp add: hd_map)
  have 5: "filter truthy (map g fs) = [] \<Longrightarrow> \<not> truthy (g (hd fs))" for g
    using assms(2) by (cases fs) (auto split: if_splits)
  show ?thesis
    apply (rule exI [of _ "spec_entry i fs"])
    apply (intro conjI impI)
    apply (simp_all add: 0 1 2 3 4 5)
    done
qed

theorem accumulator_finalized_witness:
  "addressed_to 0 example_fragments =
     [frag 0 (Some ''call_a'') (Some ''lookup'') None,
      frag 0 None (Some []) (Some ''{q:''),
      frag 0 None None (Some ''x}'')]
   \<and> (\<exists>e. map_of (accumulate example_fragments) 0 = Some e
     \<and> function_arguments e = Some ''{q:x}''
     \<and> tc_id e = Some ''call_a''
     \<and> tc_type e = None
     \<and> function_name e = Some ''lookup'')"
proof -
  have a: "addressed_to 0 example_fragments =
     [frag 0 (Some ''call_a'') (Some ''lookup'') None,
      frag 0 None (Some []) (Some ''{q:''),
      frag 0 None None (Some ''x}'')]"
    by (simp add: addressed_to_def example_fragments_def frag_def)
  have b: "[frag 0 (Some ''call_a'') (Some ''lookup'') None,
      frag 0 None (Some []) (Some ''{q:''),
      frag 0 None None (Some ''x}'')] \<noteq> []"
    by simp
  from accumulator_finalized [OF a b]
  obtain e where e: "map_of (accumulate example_fragments) 0 = Some e"
    "function_arguments e = Some ''{q:x}''"
    "tc_id e = Some ''call_a''"
    "tc_type e = None"
    "function_name e = Some ''lookup''"
    by (auto simp: frag_def function_name_def function_arguments_def)
  with a show ?thesis
    by simp
qed

section \<open>The completion frames of a create-generation\<close>

lemma merge_tool_call_not_Nil: "merge_tool_call m f \<noteq> []"
  by (cases m) (simp_all add: merge_tool_call_def split: option.split)

lemma foldl_merge_Nil: "foldl merge_tool_call m fs = [] \<longleftrightarrow> m = [] \<and> fs = []"
proof (induction fs arbitrary: m)
  case Nil
  show ?case by simp
next
  case (Cons f fs)
  show ?case by (simp add: Cons.IH merge_tool_call_not_Nil)
qed

lemma interim_calls_snoc:
  "interim_calls m (ds @ [d]) =
     interim_calls m ds
     @ function_call_of (foldl merge_tool_call m (concat (map tool_calls_or_nil (ds @ [d]))))"
  by (induction ds arbitrary: m) (simp_all add: Let_def)

lemma interim_calls_no_tool_calls:
  "concat (map tool_calls_or_nil ds) = [] \<Longrightarrow> interim_calls [] ds = []"
  by (induction ds) (simp_all add: Let_def function_call_of_def)

lemma handleChat_done_events:
  assumes "find_conversation c s = Some conv"
    and "chat_completions_create ev = Stream chunks e"
    and "[] \<notin> set chunks" and "e \<noteq> OtherError"
  shows "done_events (added s (handleChat ev eventId c content model s)) =
     map Some (interim_calls [] (map hd chunks)) @ [None]"
proof -
  have "concat (map done_of
            (if c_title conv = None
             then (case obtained_title ev of None \<Rightarrow> [] | Some t \<Rightarrow> [TitleUpdate eventId c t])
             else [])) = []"
    by (simp split: option.split del: concat_eq_Nil_conv)
  then show ?thesis
    unfolding done_events_def handleChat_sent [OF assms]
    by (simp only: map_append concat_append done_frames) (simp del: concat_eq_Nil_conv)
qed

text \<open>
  Claim C3, as amended. In a create-generation whose stream ends, by exhaustion or by an
  \<open>AbortError\<close>, the \<open>chat.stream.done\<close> frames are, in order: for each delta, after it
  has been merged, one frame with the name and the arguments gathered so far of the entry
  inserted first, when the map is not empty and that entry has a name; and then, after the
  stream has ended, one frame whose \<open>function_call\<close> is null, whether or not entries were
  finalized. So when no entry was finalized the only completion frame carries no action,
  and when the entry inserted first ends with a name, the last frame that carries an
  action carries that name and the full argument text.
\<close>

theorem completion_events_of_create:
  assumes "find_conversation c s = Some conv"
    and "chat_completions_create ev = Stream chunks e"
    and "[] \<notin> set chunks" and "e \<noteq> OtherError"
    and "finalized = accumulate (concat (map (\<lambda>ch. tool_calls_or_nil (hd ch)) chunks))"
  shows "done_events (added s (handleChat ev eventId c content model s))
           = map Some (interim_calls [] (map hd chunks)) @ [None]
     \<and> (finalized = [] \<longrightarrow> interim_calls [] (map hd chunks) = [])
     \<and> (finalized \<noteq> [] \<and> truthy (function_name (snd (hd finalized)))
          \<longrightarrow> interim_calls [] (map hd chunks) \<noteq> []
              \<and> last (interim_calls [] (map hd chunks))
                  = (or_empty (function_name (snd (hd finalized))),
                     or_empty (function_arguments (snd (hd finalized)))))"
proof -
  let ?ds = "map hd chunks"
  have fin: "finalized = foldl merge_tool_call [] (concat (map tool_calls_or_nil ?ds))"
    using assms(5) by (simp add: accumulate_def comp_def)
  have 1: "done_events (added s (handleChat ev eventId c content model s))
      = map Some (interim_calls [] ?ds) @ [None]"
    by (rule handleChat_done_events [OF assms(1-4)])
  have 2: "finalized = [] \<longrightarrow> interim_calls [] ?ds = []"
    using fin by (simp add: foldl_merge_Nil interim_calls_no_tool_calls)
  have 3: "interim_calls [] ?ds \<noteq> []
      \<and> last (interim_calls [] ?ds) = (or_empty (function_name (snd (hd finalized))),
                                      or_empty (function_arguments (snd (hd finalized))))"
    if ne: "finalized \<noteq> []" and nm: "truthy (function_name (snd (hd finalized)))"
  proof -
    from ne fin have "?ds \<noteq> []"
      by auto
    then obtain ds d where ds: "?ds = ds @ [d]"
      by (metis rev_exhaust)
    have "function_call_of finalized = [(or_empty (function_name (snd (hd finalized))),
                                      or_empty (function_arguments (snd (hd finalized))))]"
      using ne nm by (cases finalized) (auto simp: function_call_of_def)
    then show ?thesis
      using fin by (simp add: ds interim_calls_snoc)
  qed
  from 1 2 3 show ?thesis
    by blast
qed

theorem completion_events_of_create_witness:
  "find_conversation ''c1'' example_session = Some example_conversation
   \<and> chat_completions_create (example_call_env EndOfStream) = Stream example_call_chunks EndOfStream
   \<and> [] \<notin> set example_call_chunks \<and> EndOfStream \<noteq> OtherError
   \<and> map (\<lambda>p. function_name (snd p))
        (accumulate (concat (map (\<lambda>ch. tool_calls_or_nil (hd ch)) example_call_chunks)))
       = [Some ''lookup'']
   \<and> done_events (added example_session
        (handleChat (example_call_env EndOfStream) ''e1'' ''c1'' ''Hello'' ''llama''
           example_session))
       = [Some (''lookup'', ''{q:''), Some (''lookup'', ''{q:x}''), None]
   \<and> chat_completions_create example_stream_env = Stream example_chunks EndOfStream
   \<and> [] \<notin> set example_chunks
   \<and> accumulate (concat (map (\<lambda>ch. tool_calls_or_nil (hd ch)) example_chunks)) = []
   \<and> done_events (added example_session
        (handleChat example_stream_env ''e1'' ''c1'' ''Hello'' ''llama'' example_session))
       = [None]"
proof -
  have h1: "find_conversation ''c1'' example_session = Some example_conversation"
    by (simp add: find_conversation_def example_session_def constructor_def
        example_conversation_def)
  have h2: "chat_completions_create (example_call_env EndOfStream)
      = Stream example_call_chunks EndOfStream"
    by (simp add: example_call_env_def example_env_def)
  have h3: "[] \<notin> set example_call_chunks"
    by (simp add: example_call_chunks_def)
  have h4: "EndOfStream \<noteq> OtherError"
    by simp
  have f: "map (\<lambda>p. function_name (snd p))
        (accumulate (concat (map (\<lambda>ch. tool_calls_or_nil (hd ch)) example_call_chunks)))
       = [Some ''lookup'']"
    by code_simp
  have i: "interim_calls [] (map hd example_call_chunks)
      = [(''lookup'', ''{q:''), (''lookup'', ''{q:x}'')]"
    by code_simp
  have g2: "chat_completions_create example_stream_env = Stream example_chunks EndOfStream"
    by (simp add: example_stream_env_def example_env_def)
  have g3: "[] \<notin> set example_chunks"
    by (simp add: example_chunks_def)
  have g5: "accumulate (concat (map (\<lambda>ch. tool_calls_or_nil (hd ch)) example_chunks)) = []"
    by code_simp
  from completion_events_of_create [OF h1 h2 h3 h4 refl, of "''e1''" "''Hello''" "''llama''"]
    completion_events_of_create [OF h1 g2 g3 h4 refl, of "''e1''" "''Hello''" "''llama''"]
    h1 h2 h3 h4 f i g2 g3 g5
  show ?thesis
    by simp
qed

text \<open>
  Claim C3 as stated fails when the provider streams the two tool-call deltas of the
  example and the sequence is exhausted: an entry was finalized, and the completion frame
  sent at the end of the stream, the last of the run, carries no action.
\<close>

theorem final_completion_event_counterexample:
  "accumulate (concat (map (\<lambda>ch. tool_calls_or_nil (hd ch)) example_call_chunks)) \<noteq> []
   \<and> last (done_events (added example_session
        (handleChat (example_call_env EndOfStream) ''e1'' ''c1'' ''Hello'' ''llama''
           example_session))) = None"
  by code_simp

section \<open>A create-generation that is cancelled\<close>

text \<open>
  Claim C5, as amended. In a create-generation whose stream ends by an \<open>AbortError\<close>,
  exactly one assistant row is inserted, after the user's row; its content is the text
  gathered up to the cancellation. Exactly one \<open>chat.stream.done\<close> frame has a null
  \<open>function_call\<close>, and it is the last such frame; the frames before it carry an action,
  one for each delta after which the entry inserted first has a name. When no delta
  carries a tool call, the frame with the null \<open>function_call\<close> is the only one.
\<close>

theorem cancelled_create_persists_partial_text:
  assumes "find_conversation c s = Some conv"
    and "chat_completions_create ev = Stream chunks AbortError"
    and "[] \<notin> set chunks"
  shows "\<exists>m. assistant_inserted (added s (handleChat ev eventId c content model s)) = [m]
           \<and> messages (handleChat ev eventId c content model s)
               = messages s @ [new_message ev c User content s, m]
           \<and> m_content m = concat (map (\<lambda>ch. or_empty (d_content (hd ch))) chunks)
           \<and> done_events (added s (handleChat ev eventId c content model s))
               = map Some (interim_calls [] (map hd chunks)) @ [None]
           \<and> filter (\<lambda>fc. fc = None)
                (done_events (added s (handleChat ev eventId c content model s))) = [None]
           \<and> (concat (map (\<lambda>ch. tool_calls_or_nil (hd ch)) chunks) = []
                \<longrightarrow> done_events (added s (handleChat ev eventId c content model s)) = [None])"
proof -
  have e: "AbortError \<noteq> OtherError"
    by simp
  have ex: "chat_exit chunks AbortError \<noteq> Rethrown"
    using assms by (simp add: chat_exit_eq)
  let ?m = "assistant_row ev c (concat (map delta_text (map hd chunks))) s"
  have 1: "assistant_inserted (added s (handleChat ev eventId c content model s)) = [?m]"
    by (simp add: assistant_inserted_def handleChat_inserted [OF assms e])
  have 2: "messages (handleChat ev eventId c content model s)
      = messages s @ [new_message ev c User content s, ?m]"
    using handleChat_messages [OF assms(1,2) ex, of eventId content model] assms(3)
    by (simp add: processed_hd user_row_def)
  have 3: "m_content ?m = concat (map (\<lambda>ch. or_empty (d_content (hd ch))) chunks)"
    by (simp add: delta_text_def comp_def)
  have 4: "done_events (added s (handleChat ev eventId c content model s)) =
     map Some (interim_calls [] (map hd chunks)) @ [None]"
    by (rule handleChat_done_events [OF assms e])
  have 5: "filter (\<lambda>fc. fc = None) (map Some xs) = []" for xs :: "(string \<times> string) list"
    by (induction xs) simp_all
  have 6: "concat (map (\<lambda>ch. tool_calls_or_nil (hd ch)) chunks) = []
      \<Longrightarrow> interim_calls [] (map hd chunks) = []"
    using interim_calls_no_tool_calls [of "map hd chunks"] by (simp add: comp_def)
  show ?thesis
    apply (rule exI [of _ ?m])
    apply (intro conjI impI)
         apply (rule 1)
        apply (rule 2)
       apply (rule 3)
      apply (rule 4)
     apply (simp add: 4 5)
    apply (simp add: 4 6)
    done
qed

theorem cancelled_create_persists_partial_text_witness:
  "find_conversation ''c1'' example_session = Some example_conversation
   \<and> chat_completions_create example_cancelled_env = Stream example_partial_chunks AbortError
   \<and> [] \<notin> set example_partial_chunks
   \<and> concat (map (\<lambda>ch. tool_calls_or_nil (hd ch)) example_partial_chunks) = []
   \<and> (\<exists>m. assistant_inserted (added example_session
              (handleChat example_cancelled_env ''e1'' ''c1'' ''Tell me'' ''llama''
                 example_session)) = [m]
         \<and> m_content m = ''Partial '')
   \<and> done_events (added example_session
        (handleChat example_cancelled_env ''e1'' ''c1'' ''Tell me'' ''llama'' example_session))
       = [None]"
proof -
  have h1: "find_conversation ''c1'' example_session = Some example_conversation"
    by (simp add: find_conversation_def example_session_def constructor_def
        example_conversation_def)
  have h2: "chat_completions_create example_cancelled_env
      = Stream example_partial_chunks AbortError"
    by (simp add: example_cancelled_env_def example_env_def)
  have h3: "[] \<notin> set example_partial_chunks"
    by (simp add: example_partial_chunks_def)
  have h5: "concat (map (\<lambda>ch. tool_calls_or_nil (hd ch)) example_partial_chunks) = []"
    by (simp add: example_partial_chunks_def text_delta_def tool_calls_or_nil_def)
  have t: "concat (map (\<lambda>ch. or_empty (d_content (hd ch))) example_partial_chunks)
      = ''Partial ''"
    by (simp add: example_partial_chunks_def text_delta_def)
  from cancelled_create_persists_partial_text [OF h1 h2 h3, of "''e1''" "''Tell me''" "''llama''"]
  obtain m where m: "assistant_inserted (added example_session
              (handleChat example_cancelled_env ''e1'' ''c1'' ''Tell me'' ''llama''
                 example_session)) = [m]"
      "m_content m = concat (map (\<lambda>ch. or_empty (d_content (hd ch))) example_partial_chunks)"
      "concat (map (\<lambda>ch. tool_calls_or_nil (hd ch)) example_partial_chunks) = []
                \<longrightarrow> done_events (added example_session
        (handleChat example_cancelled_env ''e1'' ''c1'' ''Tell me'' ''llama'' example_session))
       = [None]"
    by blast
  from m(1) m(2) t have "\<exists>m. assistant_inserted (added example_session
              (handleChat example_cancelled_env ''e1'' ''c1'' ''Tell me'' ''llama''
                 example_session)) = [m]
         \<and> m_content m = ''Partial ''"
    by simp
  with h1 h2 h3 h5 m(3) show ?thesis
    by simp
qed

text \<open>
  Claim C5 as stated fails when the provider streams the two tool-call deltas of the
  example and the stream is then aborted: three \<open>chat.stream.done\<close> frames are sent, not
  one.
\<close>

theorem cancelled_create_single_done_counterexample:
  "done_events (added example_session
        (handleChat (example_call_env AbortError) ''e1'' ''c1'' ''Hello'' ''llama''
           example_session))
     = [Some (''lookup'', ''{q:''), Some (''lookup'', ''{q:x}''), None]
   \<and> length (done_events (added example_session
        (handleChat (example_call_env AbortError) ''e1'' ''c1'' ''Hello'' ''llama''
           example_session))) \<noteq> 1"
  by code_simp

section \<open>A regeneration that is cancelled\<close>

lemma regenerate_chunk_eq:
  "regenerate_chunk eventId c ch (r, s) =
     (r @ or_empty (chunk_content ch), send_all (regenerate_frames eventId c [ch]) s)"
  by (simp add: regenerate_chunk_def regenerate_frames_def chunk_content_def Let_def
      ws_send_eq or_empty_not_truthy)

lemma regenerate_frames_Cons:
  "regenerate_frames eventId c (ch # chunks) =
     regenerate_frames eventId c [ch] @ regenerate_frames eventId c chunks"
  by (simp add: regenerate_frames_def)

lemma regenerate_stream_eq:
  "regenerate_stream eventId c chunks e (r, s) =
     (exit_of e, r @ concat (map (\<lambda>ch. or_empty (chunk_content ch)) chunks),
      send_all (regenerate_frames eventId c chunks) s)"
proof (induction chunks arbitrary: r s)
  case Nil
  show ?case by (simp add: regenerate_frames_def)
next
  case (Cons ch chunks)
  show ?case
    by (simp add: regenerate_chunk_eq Cons.IH send_all_send_all
        regenerate_frames_Cons [of eventId c ch chunks])
qed



lemma handleRegenerate_begin_rejects:
  assumes "length (find_messages c s) < 2 \<or> m_role (last (find_messages c s)) \<noteq> Assistant"
  shows "handleRegenerate_begin eventId c model s =
     (None, ws_send (ErrorFrame eventId ''Cannot regenerate the last message.'')
              (new_AbortController s))"
proof -
  have "find_messages c (new_AbortController s) = find_messages c s"
    by (rule find_messages_cong) simp
  with assms show ?thesis
    by (simp add: handleRegenerate_begin_def Let_def)
qed









section \<open>A regeneration that is rejected\<close>

text \<open>
  Claim C7. When the conversation has fewer than two rows, or its most recent row has the
  role \<open>user\<close>, the handler does one thing: it sends the error frame
  \<open>Cannot regenerate the last message.\<close> It calls no provider and leaves the two tables
  as they were.
\<close>

theorem regenerate_rejected:
  assumes "length (find_messages c s) < 2 \<or> m_role (last (find_messages c s)) = User"
  shows "added s (handleRegenerate ev eventId c model s)
       = [WsSend (ErrorFrame eventId ''Cannot regenerate the last message.'')]
     \<and> filter is_provider_call (added s (handleRegenerate ev eventId c model s)) = []
     \<and> messages (handleRegenerate ev eventId c model s) = messages s
     \<and> conversations (handleRegenerate ev eventId c model s) = conversations s"
proof -
  have "length (find_messages c s) < 2 \<or> m_role (last (find_messages c s)) \<noteq> Assistant"
    using assms by auto
  then have "handleRegenerate ev eventId c model s =
      ws_send (ErrorFrame eventId ''Cannot regenerate the last message.'') (new_AbortController s)"
    by (simp add: handleRegenerate_def handleRegenerate_begin_rejects)
  then show ?thesis
    by simp
qed

theorem regenerate_rejected_witness:
  "length (find_messages ''c1'' (constructor [example_conversation] [hd example_history])) < 2
   \<and> added (constructor [example_conversation] [hd example_history])
        (handleRegenerate example_stream_env ''e2'' ''c1'' ''llama''
           (constructor [example_conversation] [hd example_history]))
       = [WsSend (ErrorFrame ''e2'' ''Cannot regenerate the last message.'')]
   \<and> messages (handleRegenerate example_stream_env ''e2'' ''c1'' ''llama''
           (constructor [example_conversation] [hd example_history])) = [hd example_history]
   \<and> m_role (last (find_messages ''c1''
          (constructor [example_conversation] (example_history @ [example_followup])))) = User
   \<and> added (constructor [example_conversation] (example_history @ [example_followup]))
        (handleRegenerate example_stream_env ''e2'' ''c1'' ''llama''
           (constructor [example_conversation] (example_history @ [example_followup])))
       = [WsSend (ErrorFrame ''e2'' ''Cannot regenerate the last message.'')]"
proof -
  have a: "length (find_messages ''c1'' (constructor [example_conversation] [hd example_history])) < 2"
    by (simp add: find_messages_def constructor_def example_history_def)
  have b: "m_role (last (find_messages ''c1''
          (constructor [example_conversation] (example_history @ [example_followup])))) = User"
    by (simp add: find_messages_def constructor_def example_history_def example_followup_def)
  from regenerate_rejected [of "''c1''" "constructor [example_conversation] [hd example_history]"
             example_stream_env "''e2''" "''llama''"]
       regenerate_rejected [of "''c1''" "constructor [example_conversation] (example_history @ [example_followup])"
             example_stream_env "''e2''" "''llama''"]
       a b
  show ?thesis
    by (simp add: constructor_def)
qed

section \<open>The title\<close>

lemma title_fails_obtained: "title_fails ev \<longleftrightarrow> obtained_title ev = None"
  by (simp add: title_fails_def obtained_title_def
      split: title_completion.split list.split option.split)

lemma handleChat_conversations:
  assumes "find_conversation c s = Some conv"
    and "chat_completions_create ev = Stream chunks e"
    and "chat_exit chunks e \<noteq> Rethrown"
    and "c_title conv = None \<longrightarrow> obtained_title ev = None"
  shows "map c_title (conversations (handleChat ev eventId c content model s))
       = map c_title (conversations s)"
  using assms
  by (simp add: handleChat_def handleChat_begin_eq handleChat_resume_def chat_stream_eq
      complete_turn_def Let_def derive_title_conversations)

lemma title_frames_no_error:
  "filter is_error_frame
     (if b then (case x of None \<Rightarrow> [] | Some t \<Rightarrow> [TitleUpdate eventId c t]) else []) = []"
  by (cases b; cases x) simp_all

lemma title_frames_none:
  "x = None \<Longrightarrow> (if b then (case x of None \<Rightarrow> [] | Some t \<Rightarrow> f t) else []) = []"
  by simp

lemma filter_title_call_frames: "filter is_title_call (map WsSend ms) = []"
  by (induction ms) simp_all

text \<open>
  Claim C9. In a create-generation whose stream ends, by exhaustion or by an
  \<open>AbortError\<close>, the title call is made if and only if the title of the conversation
  read at the start of the handler is null, and at most once. The handler sends no error
  frame, whatever the title block does. When the title block fails (provider error,
  malformed output or empty title), the title of every conversation is as it was and no
  \<open>conversation.title.update\<close> frame is sent.
\<close>

theorem title_derivation:
  assumes "find_conversation c s = Some conv"
    and "chat_completions_create ev = Stream chunks e"
    and "[] \<notin> set chunks" and "e \<noteq> OtherError"
  shows "(filter is_title_call (added s (handleChat ev eventId c content model s)) \<noteq> [])
           = (c_title conv = None)
     \<and> length (filter is_title_call (added s (handleChat ev eventId c content model s))) \<le> 1
     \<and> filter is_error_frame (sent (added s (handleChat ev eventId c content model s))) = []
     \<and> (title_fails ev \<longrightarrow>
           map c_title (conversations (handleChat ev eventId c content model s))
             = map c_title (conversations s)
           \<and> filter is_title_frame
               (sent (added s (handleChat ev eventId c content model s))) = [])"
proof -
  have ex: "chat_exit chunks e \<noteq> Rethrown"
    using assms by (simp add: chat_exit_eq exit_of_Rethrown)
  have tc: "filter is_title_call (title_effects ev eventId c msgs) = [TitleCompletionsCreate msgs]"
    for msgs
    by (simp add: title_effects_def split: option.split)
  have calls: "filter is_title_call (added s (handleChat ev eventId c content model s))
      = (if c_title conv = None
         then [TitleCompletionsCreate
                 (history ev c content s
                  @ [(Assistant, concat (map delta_text (processed chunks)))])]
         else [])"
    using handleChat_trace [OF assms(1,2) ex, of eventId content model]
    by (simp add: filter_title_call_frames tc)
  have fr: "filter is_error_frame (stream_frames eventId c m ds) = []" for m ds
  proof (induction ds arbitrary: m)
    case Nil
    show ?case by simp
  next
    case (Cons d ds)
    have "filter is_error_frame (map (\<lambda>fc. StreamDone eventId c (Some fc)) fcs) = []" for fcs
      by (induction fcs) simp_all
    then show ?case
      by (simp add: Let_def Cons.IH)
  qed
  have ft: "filter is_title_frame (stream_frames eventId c m ds) = []" for m ds
  proof (induction ds arbitrary: m)
    case Nil
    show ?case by simp
  next
    case (Cons d ds)
    have "filter is_title_frame (map (\<lambda>fc. StreamDone eventId c (Some fc)) fcs) = []" for fcs
      by (induction fcs) simp_all
    then show ?case
      by (simp add: Let_def Cons.IH)
  qed
  have errs: "filter is_error_frame (sent (added s (handleChat ev eventId c content model s))) = []"
    unfolding handleChat_sent [OF assms]
    by (simp only: filter_append fr title_frames_no_error) simp
  have titles: "filter is_title_frame (sent (added s (handleChat ev eventId c content model s))) = []"
    if "title_fails ev"
  proof -
    from that have "obtained_title ev = None"
      by (simp add: title_fails_obtained)
    then show ?thesis
      unfolding handleChat_sent [OF assms]
      by (simp only: filter_append ft title_frames_none) simp
  qed
  have convs: "map c_title (conversations (handleChat ev eventId c content model s))
             = map c_title (conversations s)"
    if "title_fails ev"
    using that handleChat_conversations [OF assms(1,2) ex, of eventId content model]
    by (simp add: title_fails_obtained)
  show ?thesis
    using calls errs titles convs by simp
qed

theorem title_derivation_witness:
  "find_conversation ''c1'' example_session = Some example_conversation
   \<and> chat_completions_create example_malformed_env = Stream example_chunks EndOfStream
   \<and> [] \<notin> set example_chunks \<and> EndOfStream \<noteq> OtherError
   \<and> c_title example_conversation = None
   \<and> title_fails example_malformed_env
   \<and> filter is_title_call (added example_session
         (handleChat example_malformed_env ''e1'' ''c1'' ''Hello'' ''llama'' example_session)) \<noteq> []
   \<and> map c_title (conversations
         (handleChat example_malformed_env ''e1'' ''c1'' ''Hello'' ''llama'' example_session))
       = [None]
   \<and> filter is_title_frame (sent (added example_session
         (handleChat example_malformed_env ''e1'' ''c1'' ''Hello'' ''llama'' example_session))) = []
   \<and> filter is_error_frame (sent (added example_session
         (handleChat example_malformed_env ''e1'' ''c1'' ''Hello'' ''llama'' example_session))) = []"
proof -
  have h1: "find_conversation ''c1'' example_session = Some example_conversation"
    by (simp add: find_conversation_def example_session_def constructor_def
        example_conversation_def)
  have h2: "chat_completions_create example_malformed_env = Stream example_chunks EndOfStream"
    by (simp add: example_malformed_env_def example_env_def)
  have h3: "[] \<notin> set example_chunks"
    by (simp add: example_chunks_def)
  have h4: "EndOfStream \<noteq> OtherError"
    by simp
  have h5: "c_title example_conversation = None"
    by (simp add: example_conversation_def)
  have h6: "title_fails example_malformed_env"
    by (simp add: title_fails_def example_malformed_env_def example_env_def example_parse_def)
  have cs: "map c_title (conversations example_session) = [None]"
    by (simp add: example_session_def constructor_def example_conversation_def)
  from title_derivation [OF h1 h2 h3 h4, of "''e1''" "''Hello''" "''llama''"] h1 h2 h3 h4 h5 h6 cs
  show ?thesis
    by simp
qed

section \<open>The cancellation tokens\<close>

lemma handleChat_resume_controllers:
  "controllers (handleChat_resume ev task s) = controllers s"
  by (simp add: handleChat_resume_def handleChat_catch_def chat_stream_eq complete_turn_def
      Let_def derive_title_fields split: completion.split)

lemma handleRegenerate_resume_controllers:
  "controllers (handleRegenerate_resume ev task s) = controllers s"
  by (simp add: handleRegenerate_resume_def handleRegenerate_catch_def regenerate_stream_eq
      split: completion.split)

lemma handleChat_begin_controllers:
  "controllers (snd (handleChat_begin ev eventId c content model s)) = controllers s @ [False]"
  "abortController (snd (handleChat_begin ev eventId c content model s)) = length (controllers s)"
  "fst (handleChat_begin ev eventId c content model s) = Some t
     \<Longrightarrow> ct_signal t = length (controllers s)"
  by (auto simp: handleChat_begin_def handleChat_catch_def Let_def split: option.splits)

lemma handleRegenerate_begin_controllers:
  "controllers (snd (handleRegenerate_begin eventId c model s)) = controllers s @ [False]"
  "abortController (snd (handleRegenerate_begin eventId c model s)) = length (controllers s)"
  "fst (handleRegenerate_begin eventId c model s) = Some r
     \<Longrightarrow> rt_signal r = length (controllers s)"
  by (auto simp: handleRegenerate_begin_def Let_def split: if_splits)

text \<open>
  Claim C2, as amended. A \<open>chat.stream.create\<close> or \<open>chat.regenerate\<close> command
  constructs a fresh controller, not aborted, and makes it the current one; the provider
  call of the command carries its signal. The flags of the controllers constructed before
  are what they were, those of the previous current one included, both when the handler
  reaches its provider call and when it has run to its end: the handlers abort nothing.
\<close>

theorem new_command_allocates_without_abort:
  "controllers (snd (handleChat_begin ev eventId c content model s)) = controllers s @ [False]
   \<and> abortController (snd (handleChat_begin ev eventId c content model s)) = length (controllers s)
   \<and> (\<forall>t. fst (handleChat_begin ev eventId c content model s) = Some t
          \<longrightarrow> ct_signal t = length (controllers s))
   \<and> controllers (snd (handleRegenerate_begin eventId c model s)) = controllers s @ [False]
   \<and> abortController (snd (handleRegenerate_begin eventId c model s)) = length (controllers s)
   \<and> (\<forall>r. fst (handleRegenerate_begin eventId c model s) = Some r
          \<longrightarrow> rt_signal r = length (controllers s))
   \<and> controllers (handleChat ev eventId c content model s) = controllers s @ [False]
   \<and> controllers (handleRegenerate ev eventId c model s) = controllers s @ [False]"
proof -
  have 1: "controllers (handleChat ev eventId c content model s) = controllers s @ [False]"
    using handleChat_begin_controllers(1) [of ev eventId c content model s]
    by (cases "handleChat_begin ev eventId c content model s")
       (auto simp: handleChat_def handleChat_resume_controllers split: option.split)
  have 2: "controllers (handleRegenerate ev eventId c model s) = controllers s @ [False]"
    using handleRegenerate_begin_controllers(1) [of eventId c model s]
    by (cases "handleRegenerate_begin eventId c model s")
       (auto simp: handleRegenerate_def handleRegenerate_resume_controllers split: option.split)
  show ?thesis
    using 1 2 handleChat_begin_controllers [of ev eventId c content model s]
      handleRegenerate_begin_controllers [of eventId c model s]
    by simp
qed

theorem new_command_allocates_without_abort_witness:
  "fst example_second \<noteq> None
   \<and> controllers (snd example_first) = [False, False]
   \<and> controllers (snd example_second) = controllers (snd example_first) @ [False]
   \<and> abortController (snd example_second) = 2
   \<and> map_option ct_signal (fst example_second) = Some 2
   \<and> fst (handleRegenerate_begin ''e3'' ''c1'' ''llama''
             (constructor [example_conversation] example_history)) \<noteq> None
   \<and> map_option rt_signal
         (fst (handleRegenerate_begin ''e3'' ''c1'' ''llama''
                 (constructor [example_conversation] example_history))) = Some 1
   \<and> controllers
         (snd (handleRegenerate_begin ''e3'' ''c1'' ''llama''
                 (constructor [example_conversation] example_history))) = [False, False]"
proof -
  have a: "fst example_second \<noteq> None"
    by code_simp
  have b: "controllers (snd example_first) = [False, False]"
    by code_simp
  have r: "fst (handleRegenerate_begin ''e3'' ''c1'' ''llama''
             (constructor [example_conversation] example_history)) \<noteq> None"
    by code_simp
  have k: "controllers (constructor [example_conversation] example_history) = [False]"
    by (simp add: constructor_def)
  from new_command_allocates_without_abort
         [of example_stream_env "''e2''" "''c1''" "''Hello again''" "''llama''"
             "snd example_first"]
       new_command_allocates_without_abort
         [of example_stream_env "''e3''" "''c1''" "''Hello''" "''llama''"
             "constructor [example_conversation] example_history"]
       a b r k
  show ?thesis
    by (auto simp: example_second_def)
qed

text \<open>
  Claim C2 as stated fails on the two commands of the example. The first handler waits
  for its provider call, which carries the signal of controller 1; the second command
  arrives, and when its handler has reached its own provider call, with the signal of
  controller 2, controller 1 is still not aborted: two provider calls are outstanding.
\<close>

theorem previous_token_cancelled_counterexample:
  "map_option ct_signal (fst example_first) = Some 1
   \<and> map_option ct_signal (fst example_second) = Some 2
   \<and> \<not> controllers (snd example_second) ! abortController (snd example_first)
   \<and> controllers (snd example_second) = [False, False, False]"
  by code_simp

section \<open>The cancel command\<close>



end
